theory Spec2Isabelle
  imports Main "HOL-Library.AList"
begin

section \<open>Values, dictionaries and errors\<close>

text \<open>
  Events and capsules are Python dictionaries from strings to JSON values. A dictionary is
  modelled as an association list in insertion order: \<open>d[k] = v\<close> is \<open>AList.update k v d\<close>
  (an existing key keeps its place, a new key goes to the end), \<open>del d[k]\<close> is
  \<open>AList.delete k d\<close>, and a lookup is \<open>map_of d k\<close>. Numbers that are not integers are
  left out of the value type.
\<close>

datatype json =
    JNull
  | JBool bool
  | JInt int
  | JString string
  | JArray "json list"
  | JObject "(string \<times> json) list"

type_synonym dict = "(string \<times> json) list"

datatype validation_failure =
    Missing_required string
  | Type_mismatch string
  | Reserved_key string

datatype error =
    EventValidationError validation_failure
  | SchemaDefinitionError string
  | DuplicateSchemaError
  | LookupError
  | KeyError
  | TypeError

text \<open>\<open>d.update(other)\<close>: the items of \<open>other\<close> are stored into \<open>d\<close> in their order.\<close>

definition dict_update :: "dict \<Rightarrow> dict \<Rightarrow> dict" where
  "dict_update d other = foldl (\<lambda>acc (k, v). AList.update k v acc) d other"

section \<open>Timestamps\<close>

text \<open>
  A \<open>datetime\<close> of the standard library: the calendar fields, and the offset from UTC of its
  \<open>tzinfo\<close> in microseconds (\<open>None\<close> for a naive value, as \<open>datetime.utcnow()\<close> returns).
  The constructor of \<open>datetime\<close> bounds every field (year at most 9999, month at most 12,
  hour below 24, microsecond below 1000000, an offset strictly within a day), and on those
  ranges the fixed-width renderings below are what \<open>%04d\<close>, \<open>%02d\<close> and \<open>%06d\<close> print.
\<close>

record datetime =
  year :: nat
  month :: nat
  day :: nat
  hour :: nat
  minute :: nat
  second :: nat
  microsecond :: nat
  utcoffset :: "int option"

definition digit :: "nat \<Rightarrow> char" where
  "digit n = ''0123456789'' ! (n mod 10)"

definition d2 :: "nat \<Rightarrow> string" where
  "d2 n = [digit (n div 10), digit n]"

definition d4 :: "nat \<Rightarrow> string" where
  "d4 n = [digit (n div 1000), digit (n div 100), digit (n div 10), digit n]"

definition d6 :: "nat \<Rightarrow> string" where
  "d6 n = [digit (n div 100000), digit (n div 10000), digit (n div 1000),
           digit (n div 100), digit (n div 10), digit n]"

definition format_time :: "nat \<Rightarrow> nat \<Rightarrow> nat \<Rightarrow> nat \<Rightarrow> string" where
  "format_time hh mm ss us =
     d2 hh @ '':'' @ d2 mm @ '':'' @ d2 ss @ (if us \<noteq> 0 then ''.'' @ d6 us else [])"

definition format_offset :: "int \<Rightarrow> string" where
  "format_offset off =
     (let a = nat \<bar>off\<bar>;
          sign = (if off < 0 then ''-'' else ''+'');
          hh = a div 3600000000;
          r = a mod 3600000000;
          mm = r div 60000000;
          ss = r mod 60000000
      in sign @ d2 hh @ '':'' @ d2 mm @
         (if ss \<noteq> 0
          then '':'' @ d2 (ss div 1000000) @
               (if ss mod 1000000 \<noteq> 0 then ''.'' @ d6 (ss mod 1000000) else [])
          else []))"

definition isoformat :: "datetime \<Rightarrow> string" where
  "isoformat t =
     d4 (year t) @ ''-'' @ d2 (month t) @ ''-'' @ d2 (day t) @ ''T'' @
     format_time (hour t) (minute t) (second t) (microsecond t) @
     (case utcoffset t of None \<Rightarrow> [] | Some off \<Rightarrow> format_offset off)"

section \<open>The logging library, as far as the event logger uses it\<close>

text \<open>
  A handler (a sink) is an object with an identity. The state of the logging library holds
  the level set by \<open>logging.disable\<close>; for every logger name, the handlers attached to
  that logger, its level, its \<open>disabled\<close> flag and what its filters accept; for every
  handler, its level, what its filters accept, its formatter, on which lines its \<open>emit\<close>
  fails, and the lines it has written so far. The event logger names its logger
  \<open>__name__ + "." + str(id(self))\<close>, so a logger name is the \<open>id\<close> of the instance.
  \<open>__init__\<close> turns propagation off, so a record goes to the handlers of that logger
  only.
\<close>

type_synonym handler = nat

datatype formatter =
    Default_Formatter
  | JsonFormatter_skip_message

datatype line =
    JsonLine dict
  | ReprLine dict

record Logging =
  manager_disable :: nat
  Logger_handlers :: "nat \<Rightarrow> handler list"
  Logger_level :: "nat \<Rightarrow> nat"
  Logger_disabled :: "nat \<Rightarrow> bool"
  Logger_filter :: "nat \<Rightarrow> dict \<Rightarrow> bool"
  Handler_level :: "handler \<Rightarrow> nat"
  Handler_filter :: "handler \<Rightarrow> dict \<Rightarrow> bool"
  Handler_formatter :: "handler \<Rightarrow> formatter"
  Handler_emit_fails :: "handler \<Rightarrow> line \<Rightarrow> bool"
  Handler_stream :: "handler \<Rightarrow> line list"

text \<open>The numeric levels \<open>logging.INFO\<close> and \<open>logging.WARNING\<close>; \<open>NOTSET\<close> is 0.\<close>

definition INFO :: nat where
  "INFO = 20"

definition WARNING :: nat where
  "WARNING = 30"

text \<open>
  The library before any logger or handler is configured: nothing is disabled, a logger
  without a level of its own takes the root logger's \<open>WARNING\<close>, a handler has the level
  \<open>NOTSET\<close>, no filters, the default formatter, and its \<open>emit\<close> does not fail.
\<close>

definition Logging_empty :: Logging where
  "Logging_empty =
     \<lparr>manager_disable = 0,
      Logger_handlers = (\<lambda>_. []),
      Logger_level = (\<lambda>_. WARNING),
      Logger_disabled = (\<lambda>_. False),
      Logger_filter = (\<lambda>_ _. True),
      Handler_level = (\<lambda>_. 0),
      Handler_filter = (\<lambda>_ _. True),
      Handler_formatter = (\<lambda>_. Default_Formatter),
      Handler_emit_fails = (\<lambda>_ _. False),
      Handler_stream = (\<lambda>_. [])\<rparr>"

definition addHandler :: "handler list \<Rightarrow> handler \<Rightarrow> handler list" where
  "addHandler hs h = (if h \<notin> set hs then hs @ [h] else hs)"

definition removeHandler :: "handler list \<Rightarrow> handler \<Rightarrow> handler list" where
  "removeHandler hs h = (if h \<in> set hs then remove1 h hs else hs)"

text \<open>
  \<open>_skip_message\<close>, the serializer that \<open>add_handler\<close> gives to the JSON formatter:
  \<open>del record["message"]\<close> raises \<open>KeyError\<close> on a record without that key, and
  \<open>JsonLine d\<close> stands for the text \<open>json.dumps(d)\<close>.
\<close>

definition skip_message :: "dict \<Rightarrow> error + line" where
  "skip_message record =
     (if map_of record ''message'' = None then Inl KeyError
      else Inr (JsonLine (AList.delete ''message'' record)))"

text \<open>
  The JSON formatter on a record whose message is a dictionary: the log record starts with
  the field \<open>message\<close> set to null, the dictionary is merged over it, and the serializer
  is applied. The default formatter writes \<open>str\<close> of the message.
\<close>

definition JsonFormatter_format :: "dict \<Rightarrow> error + line" where
  "JsonFormatter_format msg = skip_message (dict_update [(''message'', JNull)] msg)"

definition Formatter_format :: "formatter \<Rightarrow> dict \<Rightarrow> error + line" where
  "Formatter_format fmt msg =
     (case fmt of
        Default_Formatter \<Rightarrow> Inr (ReprLine msg)
      | JsonFormatter_skip_message \<Rightarrow> JsonFormatter_format msg)"

text \<open>
  \<open>emit\<close> of a handler, as the handlers of the library write it: the record is formatted
  and the line written; an exception while formatting or writing goes to
  \<open>Handler.handleError\<close> and nothing is written.
\<close>

definition Handler_emit :: "Logging \<Rightarrow> handler \<Rightarrow> dict \<Rightarrow> Logging" where
  "Handler_emit lg h msg =
     (case Formatter_format (Handler_formatter lg h) msg of
        Inl _ \<Rightarrow> lg
      | Inr l \<Rightarrow>
          if Handler_emit_fails lg h l then lg
          else lg\<lparr>Handler_stream := (Handler_stream lg)(h := Handler_stream lg h @ [l])\<rparr>)"

text \<open>\<open>Handler.handle\<close>: the record is emitted when the handler's filters accept it.\<close>

definition Handler_handle :: "Logging \<Rightarrow> handler \<Rightarrow> dict \<Rightarrow> Logging" where
  "Handler_handle lg h msg = (if Handler_filter lg h msg then Handler_emit lg h msg else lg)"

text \<open>
  \<open>Logger.callHandlers\<close> for a record of level \<open>INFO\<close> on a logger that does not
  propagate: every attached handler whose level is not above the record's handles it.
\<close>

definition callHandlers :: "Logging \<Rightarrow> nat \<Rightarrow> dict \<Rightarrow> Logging" where
  "callHandlers lg name msg =
     foldl (\<lambda>acc h. if Handler_level acc h \<le> INFO then Handler_handle acc h msg else acc)
       lg (Logger_handlers lg name)"

text \<open>
  \<open>Logger.isEnabledFor\<close>: false for a disabled logger and for a level that
  \<open>logging.disable\<close> covers, else the level is compared with the logger's.
\<close>

definition isEnabledFor :: "Logging \<Rightarrow> nat \<Rightarrow> nat \<Rightarrow> bool" where
  "isEnabledFor lg name level =
     (if Logger_disabled lg name then False
      else if manager_disable lg \<ge> level then False
      else level \<ge> Logger_level lg name)"

text \<open>
  \<open>Logger.info\<close>: when the logger is enabled for \<open>INFO\<close> a record is made, and
  \<open>Logger.handle\<close> passes it to the handlers when the logger's filters accept it.
\<close>

definition Logger_info :: "Logging \<Rightarrow> nat \<Rightarrow> dict \<Rightarrow> Logging" where
  "Logger_info lg name msg =
     (if isEnabledFor lg name INFO
      then (if \<not> Logger_disabled lg name \<and> Logger_filter lg name msg
            then callHandlers lg name msg else lg)
      else lg)"

text \<open>
  Shorthands for the statements below: the line a formatter makes of a message, the
  conditions under which a handler writes a record of level \<open>INFO\<close> handed to it, and
  those under which the logger hands such a record to its handlers.
\<close>

abbreviation formatted :: "formatter \<Rightarrow> dict \<Rightarrow> line" where
  "formatted fmt msg \<equiv>
     (case fmt of
        Default_Formatter \<Rightarrow> ReprLine msg
      | JsonFormatter_skip_message \<Rightarrow>
          JsonLine (AList.delete ''message'' (dict_update [(''message'', JNull)] msg)))"

abbreviation Handler_takes :: "Logging \<Rightarrow> handler \<Rightarrow> dict \<Rightarrow> bool" where
  "Handler_takes lg h msg \<equiv>
     Handler_level lg h \<le> INFO \<and> Handler_filter lg h msg
     \<and> \<not> Handler_emit_fails lg h (formatted (Handler_formatter lg h) msg)"

abbreviation Logger_passes :: "Logging \<Rightarrow> nat \<Rightarrow> dict \<Rightarrow> bool" where
  "Logger_passes lg name msg \<equiv> isEnabledFor lg name INFO \<and> Logger_filter lg name msg"

section \<open>Schemas and the schema registry\<close>

text \<open>
  The modules \<open>schema_registry\<close> and \<open>schema\<close> of the package are not among the sources,
  so every definition of this section follows sections 3, 4.1 and 4.2 of the
  specification and says so.
\<close>

text \<open>
  Modelled from the spec: the \<open>type\<close> of a property, a primitive type tag or an \<open>enum\<close>
  of allowed literal values (section 3; the class \<open>Schema\<close> is missing).
\<close>

datatype type_tag = TString | TInteger | TNumber | TBoolean | TNull | TArray | TObject

datatype property_type =
    Type type_tag
  | Enum "json list"

text \<open>
  Modelled from the spec: \<open>PropertySpec\<close> of section 3 (the class \<open>Schema\<close> is missing),
  with the default and the optional mark that section 4.2 reads. A property without
  policies of its own has \<open>redactionPolicies = None\<close>.
\<close>

record PropertySpec =
  ptype :: property_type
  redactionPolicies :: "string list option"
  default_value :: "json option"
  optional :: bool

text \<open>
  Modelled from the spec: \<open>Schema\<close> of section 3 (the class is missing); \<open>properties\<close>
  is an ordered mapping.
\<close>

record Schema =
  schema_id :: string
  version :: int
  title :: "string option"
  schemaRedactionPolicies :: "string list"
  properties :: "(string \<times> PropertySpec) list"

text \<open>
  Modelled from the spec: the reserved prefix \<open>__\<close> of capsule metadata (section 3; the
  check is part of the missing \<open>Schema\<close> and \<open>SchemaRegistry\<close>).
\<close>

definition reserved :: "string \<Rightarrow> bool" where
  "reserved k = (take 2 k = ''__'')"

text \<open>
  Modelled from the spec: the invariant of section 3 that the missing
  \<open>SchemaRegistry.register\<close> establishes, no property name of a stored schema begins
  with the reserved prefix.
\<close>

definition Schema_invariant :: "Schema \<Rightarrow> bool" where
  "Schema_invariant schema = list_all (\<lambda>(k, p). \<not> reserved k) (properties schema)"

text \<open>
  Modelled from the spec: a value matches its declared type or enum set (section 4.2; part
  of the missing \<open>Schema.validate\<close>).
\<close>

fun matches_tag :: "type_tag \<Rightarrow> json \<Rightarrow> bool" where
  "matches_tag TString (JString _) = True"
| "matches_tag TInteger (JInt _) = True"
| "matches_tag TNumber (JInt _) = True"
| "matches_tag TBoolean (JBool _) = True"
| "matches_tag TNull JNull = True"
| "matches_tag TArray (JArray _) = True"
| "matches_tag TObject (JObject _) = True"
| "matches_tag _ _ = False"

fun matches :: "property_type \<Rightarrow> json \<Rightarrow> bool" where
  "matches (Type t) v = matches_tag t v"
| "matches (Enum vs) v = (v \<in> set vs)"

text \<open>
  Modelled from the spec: a property without a default is required unless it is marked
  optional (section 4.2; part of the missing \<open>Schema.validate\<close>).
\<close>

definition required :: "PropertySpec \<Rightarrow> bool" where
  "required p = (default_value p = None \<and> \<not> optional p)"

text \<open>
  Modelled from the spec: \<open>Schema.validate\<close> of section 4.2 (the class \<open>Schema\<close> is
  missing). The three checks run in the
  order the specification lists them and the first violation is the error; the input is
  not changed.
\<close>

definition validate :: "Schema \<Rightarrow> dict \<Rightarrow> error + unit" where
  "validate schema event =
     (case find (\<lambda>(k, p). required p \<and> map_of event k = None) (properties schema) of
        Some (k, _) \<Rightarrow> Inl (EventValidationError (Missing_required k))
      | None \<Rightarrow>
     (case find (\<lambda>(k, p). case map_of event k of
                             None \<Rightarrow> False
                           | Some v \<Rightarrow> \<not> matches (ptype p) v) (properties schema) of
        Some (k, _) \<Rightarrow> Inl (EventValidationError (Type_mismatch k))
      | None \<Rightarrow>
     (case find (\<lambda>(k, v). map_of (properties schema) k = None \<and> reserved k) event of
        Some (k, _) \<Rightarrow> Inl (EventValidationError (Reserved_key k))
      | None \<Rightarrow> Inr ())))"

text \<open>
  Modelled from the spec: the effective policies of a field are its own, or the schema's
  when it declares none (section 4.2; part of the missing
  \<open>Schema.enforce_redaction_policies\<close>).
\<close>

definition effective_policies :: "Schema \<Rightarrow> string \<Rightarrow> string list" where
  "effective_policies schema k =
     (case map_of (properties schema) k of
        None \<Rightarrow> schemaRedactionPolicies schema
      | Some p \<Rightarrow>
          (case redactionPolicies p of
             None \<Rightarrow> schemaRedactionPolicies schema
           | Some ps \<Rightarrow> ps))"

text \<open>
  Modelled from the spec: a field stays when its effective policies meet the allowed
  policies or when the allowed policies hold the wildcard \<open>all\<close> (section 4.2; part of the
  missing \<open>Schema.enforce_redaction_policies\<close>).
\<close>

definition retained :: "Schema \<Rightarrow> string list \<Rightarrow> string \<Rightarrow> bool" where
  "retained schema allowedPolicies k =
     (list_ex (\<lambda>p. p \<in> set allowedPolicies) (effective_policies schema k)
      \<or> ''all'' \<in> set allowedPolicies)"

text \<open>
  Modelled from the spec: \<open>Schema.enforce_redaction_policies\<close> of section 4.2 (the class
  \<open>Schema\<close> is missing). The result is the event after the removal in place.
\<close>

definition enforce_redaction_policies :: "Schema \<Rightarrow> dict \<Rightarrow> string list \<Rightarrow> dict" where
  "enforce_redaction_policies schema event allowedPolicies =
     filter (\<lambda>(k, v). retained schema allowedPolicies k) event"

text \<open>
  Modelled from the spec: \<open>SchemaRegistry\<close> of section 3 (the class is missing), a
  mapping from a pair of identifier and version to a schema. The constructor call in
  \<open>_default_schema_registry\<close> shows that a registry is built from a list of allowed
  policies, which it keeps.
\<close>

record SchemaRegistry =
  registry_allowed_policies :: "string list"
  schemas :: "((string \<times> int) \<times> Schema) list"

text \<open>
  Modelled from the spec: \<open>contains\<close> of section 4.1, the membership test of the missing
  \<open>SchemaRegistry\<close>.
\<close>

definition SchemaRegistry_contains :: "SchemaRegistry \<Rightarrow> string \<times> int \<Rightarrow> bool" where
  "SchemaRegistry_contains reg key = (map_of (schemas reg) key \<noteq> None)"

text \<open>
  Modelled from the spec: \<open>get\<close> of section 4.1 (the missing \<open>SchemaRegistry\<close>), which
  fails with a lookup error on an absent key.
\<close>

definition SchemaRegistry_get :: "SchemaRegistry \<Rightarrow> string \<times> int \<Rightarrow> error + Schema" where
  "SchemaRegistry_get reg key =
     (case map_of (schemas reg) key of None \<Rightarrow> Inl LookupError | Some schema \<Rightarrow> Inr schema)"

text \<open>
  Modelled from the spec: the invariant of section 3 for every schema that the missing
  \<open>SchemaRegistry\<close> stores.
\<close>

definition SchemaRegistry_invariant :: "SchemaRegistry \<Rightarrow> bool" where
  "SchemaRegistry_invariant reg = list_all (\<lambda>(key, schema). Schema_invariant schema) (schemas reg)"

text \<open>
  Modelled from the spec: the constant \<open>EVENTS_METADATA_VERSION\<close> of the package's
  \<open>__init__\<close>, which section 8 and the tests give as 1.
\<close>

definition EVENTS_METADATA_VERSION :: int where
  "EVENTS_METADATA_VERSION = 1"

section \<open>The event logger\<close>

text \<open>
  The traits of an \<open>EventLogger\<close>: \<open>handlers\<close> allows \<open>None\<close>; \<open>log\<close> is the name of the
  instance's own logger in the logging library.
\<close>

record EventLogger =
  handlers :: "handler list option"
  allowed_policies :: "string list"
  schema_registry :: SchemaRegistry
  log :: nat

record handler_outcome =
  raised :: "error option"
  logger :: EventLogger
  logging :: Logging

record emit_outcome =
  returned :: "error + dict option"
  logging_after :: Logging
  event_after :: dict

text \<open>
  \<open>add_handler\<close>: the formatter is set and the handler attached to the instance's logger
  before the membership test on the trait, which raises \<open>TypeError\<close> when the trait is
  \<open>None\<close>.
\<close>

definition add_handler :: "EventLogger \<Rightarrow> Logging \<Rightarrow> handler \<Rightarrow> handler_outcome" where
  "add_handler el lg h =
     (let lg1 = lg\<lparr>Handler_formatter := (Handler_formatter lg)(h := JsonFormatter_skip_message)\<rparr>;
          lg2 = lg1\<lparr>Logger_handlers :=
                      (Logger_handlers lg1)(log el := addHandler (Logger_handlers lg1 (log el)) h)\<rparr>
      in case handlers el of
           None \<Rightarrow> \<lparr>raised = Some TypeError, logger = el, logging = lg2\<rparr>
         | Some hs \<Rightarrow>
             \<lparr>raised = None,
              logger = el\<lparr>handlers := Some (if h \<notin> set hs then hs @ [h] else hs)\<rparr>,
              logging = lg2\<rparr>)"

definition remove_handler :: "EventLogger \<Rightarrow> Logging \<Rightarrow> handler \<Rightarrow> handler_outcome" where
  "remove_handler el lg h =
     (let lg1 = lg\<lparr>Logger_handlers :=
                     (Logger_handlers lg)(log el := removeHandler (Logger_handlers lg (log el)) h)\<rparr>
      in case handlers el of
           None \<Rightarrow> \<lparr>raised = Some TypeError, logger = el, logging = lg1\<rparr>
         | Some hs \<Rightarrow>
             \<lparr>raised = None,
              logger = el\<lparr>handlers := Some (if h \<in> set hs then remove1 h hs else hs)\<rparr>,
              logging = lg1\<rparr>)"

text \<open>
  \<open>__init__\<close>: the traits are set from the arguments (the allowed policies default to the
  wildcard, the registry to a fresh one built from the allowed policies). The argument
  \<open>ident\<close> is \<open>id(self)\<close>: \<open>logging.getLogger\<close> returns the logger of that name, a
  new one or the one that exists already with the handlers it has. Its level is set to
  \<open>INFO\<close>, and every handler of a non-empty \<open>handlers\<close> trait is passed to
  \<open>add_handler\<close>.
\<close>

definition default_allowed_policies :: "string list" where
  "default_allowed_policies = [''all'']"

text \<open>
  Modelled from the spec: the constructor of the missing \<open>SchemaRegistry\<close>, as
  \<open>_default_schema_registry\<close> calls it: an empty registry that keeps the allowed policies
  it is given.
\<close>

definition default_schema_registry :: "string list \<Rightarrow> SchemaRegistry" where
  "default_schema_registry policies = \<lparr>registry_allowed_policies = policies, schemas = []\<rparr>"

text \<open>The loop of \<open>__init__\<close> over the handlers; an exception would end it.\<close>

fun add_handlers :: "handler_outcome \<Rightarrow> handler list \<Rightarrow> handler_outcome" where
  "add_handlers out [] = out"
| "add_handlers out (h # hs) =
     (case raised out of
        Some e \<Rightarrow> out
      | None \<Rightarrow> add_handlers (add_handler (logger out) (logging out) h) hs)"

definition EventLogger_init ::
  "nat \<Rightarrow> handler list option \<Rightarrow> string list option \<Rightarrow> SchemaRegistry option \<Rightarrow> Logging
   \<Rightarrow> handler_outcome" where
  "EventLogger_init ident hs policies registry lg =
     (let pol = (case policies of None \<Rightarrow> default_allowed_policies | Some ps \<Rightarrow> ps);
          el = \<lparr>handlers = hs, allowed_policies = pol,
                schema_registry =
                  (case registry of None \<Rightarrow> default_schema_registry pol | Some r \<Rightarrow> r),
                log = ident\<rparr>;
          out = \<lparr>raised = None, logger = el,
                 logging = lg\<lparr>Logger_level := (Logger_level lg)(ident := INFO)\<rparr>\<rparr>
      in case hs of
           None \<Rightarrow> out
         | Some l \<Rightarrow> add_handlers out l)"

text \<open>
  Modelled from the spec: \<open>SchemaRegistry.register\<close> of section 4.1 (the class
  \<open>SchemaRegistry\<close> is missing), on a definition that
  is already parsed into the shape of section 3. The types then settle the presence and
  the typing of \<open>id\<close>, \<open>version\<close>, the types and the policy lists; what is left of the
  checks is the reserved prefix, reported with the offending name, and the duplicate key.
\<close>

definition SchemaRegistry_register :: "SchemaRegistry \<Rightarrow> Schema \<Rightarrow> error + SchemaRegistry" where
  "SchemaRegistry_register reg defn =
     (case find (\<lambda>(k, p). reserved k) (properties defn) of
        Some (k, _) \<Rightarrow> Inl (SchemaDefinitionError k)
      | None \<Rightarrow>
          if SchemaRegistry_contains reg (schema_id defn, version defn)
          then Inl DuplicateSchemaError
          else Inr (reg\<lparr>schemas :=
                 schemas reg @ [((schema_id defn, version defn), defn)]\<rparr>))"

text \<open>\<open>register_schema\<close> hands the definition to the registry of the instance.\<close>

definition register_schema :: "EventLogger \<Rightarrow> Schema \<Rightarrow> error + EventLogger" where
  "register_schema el defn =
     (case SchemaRegistry_register (schema_registry el) defn of
        Inl e \<Rightarrow> Inl e
      | Inr reg \<Rightarrow> Inr (el\<lparr>schema_registry := reg\<rparr>))"

text \<open>
  \<open>emit\<close>. The current time is an argument: \<open>utcnow\<close> is what \<open>datetime.utcnow()\<close>
  returns when the call is made. The outcome holds what is returned or raised, the state
  of the logging library afterwards, and the event dictionary afterwards, which the
  redaction changes in place. The call of \<open>enforce_redaction_policies\<close> in the source
  passes the event alone, and how the schema comes by the allowed policies is in the
  missing module. Modelled from the spec: section 4.3, step 3, gives them as the logger's
  configured policy set.
\<close>

definition empty_capsule :: "datetime \<Rightarrow> string \<Rightarrow> int \<Rightarrow> dict" where
  "empty_capsule timestamp schema_name ver =
     [(''__timestamp__'', JString (isoformat timestamp @ ''Z'')),
      (''__schema__'', JString schema_name),
      (''__schema_version__'', JInt ver),
      (''__metadata_version__'', JInt EVENTS_METADATA_VERSION)]"

definition emit ::
  "EventLogger \<Rightarrow> Logging \<Rightarrow> string \<Rightarrow> int \<Rightarrow> dict \<Rightarrow> datetime option \<Rightarrow> datetime
   \<Rightarrow> emit_outcome" where
  "emit el lg schema_name ver event timestamp_override utcnow =
     (if handlers el = None \<or> handlers el = Some []
         \<or> \<not> SchemaRegistry_contains (schema_registry el) (schema_name, ver)
      then \<lparr>returned = Inr None, logging_after = lg, event_after = event\<rparr>
      else
        let timestamp = (case timestamp_override of None \<Rightarrow> utcnow | Some t \<Rightarrow> t);
            capsule = empty_capsule timestamp schema_name ver
        in case SchemaRegistry_get (schema_registry el) (schema_name, ver) of
             Inl e \<Rightarrow> \<lparr>returned = Inl e, logging_after = lg, event_after = event\<rparr>
           | Inr schema \<Rightarrow>
               (case validate schema event of
                  Inl e \<Rightarrow> \<lparr>returned = Inl e, logging_after = lg, event_after = event\<rparr>
                | Inr _ \<Rightarrow>
                    let event' = enforce_redaction_policies schema event (allowed_policies el);
                        capsule' = dict_update capsule event'
                    in \<lparr>returned = Inr (Some capsule'),
                        logging_after = Logger_info lg (log el) capsule',
                        event_after = event'\<rparr>))"

section \<open>Example data\<close>

text \<open>
  The schema of the package's tests and of section 8 of the specification, a second schema
  with a field under another policy, and the loggers, logging states and timestamps that
  the worked examples below run on.
\<close>

definition test_schema :: Schema where
  "test_schema =
     \<lparr>schema_id = ''test/test'', version = 1, title = None,
      schemaRedactionPolicies = [''unrestricted''],
      properties = [(''something'',
        \<lparr>ptype = Type TString, redactionPolicies = Some [''unrestricted''],
         default_value = None, optional = False\<rparr>)]\<rparr>"


definition example_time :: datetime where
  "example_time =
     \<lparr>year = 2022, month = 8, day = 11, hour = 12, minute = 34, second = 56,
      microsecond = 0, utcoffset = None\<rparr>"

definition yesterday :: datetime where
  "yesterday = example_time\<lparr>day := 10, microsecond := 250\<rparr>"

definition berlin_noon :: datetime where
  "berlin_noon = example_time\<lparr>utcoffset := Some 7200000000\<rparr>"

definition example_logger :: EventLogger where
  "example_logger =
     \<lparr>handlers = Some [7], allowed_policies = [''all''],
      schema_registry =
        \<lparr>registry_allowed_policies = [''all''], schemas = [((''test/test'', 1), test_schema)]\<rparr>,
      log = 0\<rparr>"



definition duplicate_logger :: handler_outcome where
  "duplicate_logger = EventLogger_init 0 (Some [7, 7]) None None Logging_empty"



definition first_instance :: handler_outcome where
  "first_instance = EventLogger_init 0 (Some [7]) None None Logging_empty"

definition second_instance :: handler_outcome where
  "second_instance = EventLogger_init 0 (Some [8]) None None (logging first_instance)"

definition two_loggers :: Logging where
  "two_loggers = logging (EventLogger_init 5 (Some [8]) None None
                   (logging (EventLogger_init 0 (Some [7]) None None Logging_empty)))"

section \<open>Dictionaries and the logging library\<close>

lemma map_of_dict_update_notin:
  "k \<notin> fst ` set other \<Longrightarrow> map_of (dict_update d other) k = map_of d k"
  unfolding dict_update_def
  by (induction other arbitrary: d) (auto simp: update_conv')

lemma map_of_dict_update_dom:
  "map_of d k \<noteq> None \<Longrightarrow> map_of (dict_update d other) k \<noteq> None"
  unfolding dict_update_def
  by (induction other arbitrary: d) (auto simp: update_conv')

lemma Formatter_format_total: "Formatter_format fmt msg = Inr (formatted fmt msg)"
proof (cases fmt)
  case Default_Formatter
  then show ?thesis by (simp add: Formatter_format_def)
next
  case JsonFormatter_skip_message
  have "map_of (dict_update [(''message'', JNull)] msg) ''message'' \<noteq> None"
    by (rule map_of_dict_update_dom) simp
  with JsonFormatter_skip_message show ?thesis
    by (simp add: Formatter_format_def JsonFormatter_format_def skip_message_def)
qed

lemma Handler_handle_config:
  "manager_disable (Handler_handle lg h msg) = manager_disable lg"
  "Logger_handlers (Handler_handle lg h msg) = Logger_handlers lg"
  "Logger_level (Handler_handle lg h msg) = Logger_level lg"
  "Logger_disabled (Handler_handle lg h msg) = Logger_disabled lg"
  "Logger_filter (Handler_handle lg h msg) = Logger_filter lg"
  "Handler_level (Handler_handle lg h msg) = Handler_level lg"
  "Handler_filter (Handler_handle lg h msg) = Handler_filter lg"
  "Handler_formatter (Handler_handle lg h msg) = Handler_formatter lg"
  "Handler_emit_fails (Handler_handle lg h msg) = Handler_emit_fails lg"
  by (simp_all add: Handler_handle_def Handler_emit_def Formatter_format_total)

lemma Handler_handle_stream:
  "Handler_stream (Handler_handle lg h msg) h' =
     Handler_stream lg h' @
       (if h' = h \<and> Handler_filter lg h msg
           \<and> \<not> Handler_emit_fails lg h (formatted (Handler_formatter lg h) msg)
        then [formatted (Handler_formatter lg h) msg] else [])"
  by (simp add: Handler_handle_def Handler_emit_def Formatter_format_total)


lemma foldl_callHandlers_stream:
  "Handler_stream (foldl (\<lambda>acc h. if Handler_level acc h \<le> INFO
       then Handler_handle acc h msg else acc) lg hs) h' =
     Handler_stream lg h' @
       (if Handler_takes lg h' msg
        then replicate (count_list hs h') (formatted (Handler_formatter lg h') msg)
        else [])"
proof (induction hs arbitrary: lg)
  case Nil
  show ?case by simp
next
  case (Cons a hs)
  show ?case
    by (auto simp: Cons.IH Handler_handle_config Handler_handle_stream replicate_append_same)
qed



lemma Logger_info_stream:
  "Handler_stream (Logger_info lg name msg) h =
     Handler_stream lg h @
       (if Logger_passes lg name msg \<and> Handler_takes lg h msg
        then replicate (count_list (Logger_handlers lg name) h)
               (formatted (Handler_formatter lg h) msg)
        else [])"
  by (simp add: Logger_info_def callHandlers_def foldl_callHandlers_stream isEnabledFor_def)

section \<open>Timestamps in ISO format\<close>

lemma length_digits [simp]: "length (d2 n) = 2" "length (d4 n) = 4" "length (d6 n) = 6"
  by (simp_all add: d2_def d4_def d6_def)

lemma length_format_time:
  "length (format_time hh mm ss us) = (if us = 0 then 8 else 15)"
  by (simp add: format_time_def)

lemma length_format_offset: "length (format_offset off) \<in> {6, 9, 16}"
  by (simp add: format_offset_def Let_def)

lemma isoformat_split:
  "isoformat t = isoformat (t\<lparr>utcoffset := None\<rparr>)
                 @ (case utcoffset t of None \<Rightarrow> [] | Some off \<Rightarrow> format_offset off)"
  by (simp add: isoformat_def)

lemma length_isoformat_naive:
  "utcoffset u = None \<Longrightarrow> length (isoformat u) = (if microsecond u = 0 then 19 else 26)"
  by (simp add: isoformat_def length_format_time)

lemma isoformat_aware_not_naive:
  assumes "utcoffset t = Some off" and "utcoffset u = None"
  shows "isoformat t @ ''Z'' \<noteq> isoformat u @ ''Z''"
proof -
  have t: "length (isoformat t) = (if microsecond t = 0 then 19 else 26) + length (format_offset off)"
    using assms(1) length_isoformat_naive [of "t\<lparr>utcoffset := None\<rparr>"]
    by (subst isoformat_split) simp
  have "length (isoformat t) \<noteq> length (isoformat u)"
    using t length_isoformat_naive [OF assms(2)] length_format_offset [of off]
    by (auto split: if_splits)
  then show ?thesis by auto
qed

lemma example_iso: "isoformat example_time = ''2022-08-11T12:34:56''"
  by (simp add: isoformat_def example_time_def d2_def d4_def digit_def format_time_def)

section \<open>Validation and the registry invariant\<close>

lemma validate_error:
  "validate schema event = Inl e \<Longrightarrow> \<exists>f. e = EventValidationError f"
  by (auto simp: validate_def split: option.splits prod.splits)

lemma validate_no_reserved:
  assumes "validate schema event = Inr u" and "Schema_invariant schema"
  shows "\<forall>(k, v) \<in> set event. \<not> reserved k"
proof -
  from assms(1) have "find (\<lambda>(k, v). map_of (properties schema) k = None \<and> reserved k) event = None"
    by (auto simp: validate_def split: option.splits prod.splits)
  then have a: "\<forall>(k, v) \<in> set event. \<not> (map_of (properties schema) k = None \<and> reserved k)"
    by (auto simp: find_None_iff)
  have b: "\<And>k p. map_of (properties schema) k = Some p \<Longrightarrow> \<not> reserved k"
  proof -
    fix k p assume "map_of (properties schema) k = Some p"
    then have "(k, p) \<in> set (properties schema)" by (rule map_of_SomeD)
    with assms(2) show "\<not> reserved k"
      by (auto simp: Schema_invariant_def list_all_iff)
  qed
  from a b show ?thesis by fastforce
qed

lemma default_registry_invariant:
  "SchemaRegistry_invariant (default_schema_registry policies)"
  by (simp add: SchemaRegistry_invariant_def default_schema_registry_def)

lemma register_invariant:
  assumes "SchemaRegistry_invariant reg" and "SchemaRegistry_register reg defn = Inr reg'"
  shows "SchemaRegistry_invariant reg'"
proof -
  from assms(2) have f: "find (\<lambda>(k, p). reserved k) (properties defn) = None"
    and r: "reg' = reg\<lparr>schemas :=
         schemas reg @ [((schema_id defn, version defn), defn)]\<rparr>"
    by (auto simp: SchemaRegistry_register_def split: option.splits if_splits prod.splits)
  from f have "Schema_invariant defn"
    by (auto simp: Schema_invariant_def find_None_iff list_all_iff)
  with assms(1) show ?thesis
    unfolding r by (simp add: SchemaRegistry_invariant_def)
qed


section \<open>Handlers and construction\<close>

lemma add_handler_logging:
  "Logger_handlers (logging (add_handler el lg h))
     = (Logger_handlers lg)(log el := addHandler (Logger_handlers lg (log el)) h)"
  "Handler_formatter (logging (add_handler el lg h))
     = (Handler_formatter lg)(h := JsonFormatter_skip_message)"
  "Handler_stream (logging (add_handler el lg h)) = Handler_stream lg"
  "manager_disable (logging (add_handler el lg h)) = manager_disable lg"
  "Logger_level (logging (add_handler el lg h)) = Logger_level lg"
  "Logger_disabled (logging (add_handler el lg h)) = Logger_disabled lg"
  "Logger_filter (logging (add_handler el lg h)) = Logger_filter lg"
  "Handler_level (logging (add_handler el lg h)) = Handler_level lg"
  "Handler_filter (logging (add_handler el lg h)) = Handler_filter lg"
  "Handler_emit_fails (logging (add_handler el lg h)) = Handler_emit_fails lg"
  by (simp_all add: add_handler_def Let_def split: option.splits)


lemma add_handler_logger:
  "handlers el = Some hs \<Longrightarrow>
   raised (add_handler el lg h) = None
   \<and> logger (add_handler el lg h) = el\<lparr>handlers := Some (if h \<notin> set hs then hs @ [h] else hs)\<rparr>"
  by (simp add: add_handler_def Let_def)

lemma remove_handler_logger:
  "handlers el = Some hs \<Longrightarrow>
   raised (remove_handler el lg h) = None
   \<and> logger (remove_handler el lg h)
       = el\<lparr>handlers := Some (if h \<in> set hs then remove1 h hs else hs)\<rparr>"
  by (simp add: remove_handler_def Let_def)



lemma register_schema_traits:
  assumes "register_schema el defn = Inr el'"
  shows "registry_allowed_policies (schema_registry el')
           = registry_allowed_policies (schema_registry el)"
    and "allowed_policies el' = allowed_policies el"
    and "handlers el' = handlers el"
  using assms
  by (auto simp: register_schema_def SchemaRegistry_register_def
           split: sum.splits option.splits if_splits prod.splits)

lemma example_logger_built:
  "register_schema (logger (EventLogger_init 0 (Some [7]) None None Logging_empty)) test_schema
     = Inr example_logger"
  by (simp add: register_schema_def SchemaRegistry_register_def EventLogger_init_def
        add_handler_def default_allowed_policies_def default_schema_registry_def
        SchemaRegistry_contains_def test_schema_def example_logger_def reserved_def Let_def)

lemma example_logger_invariant: "SchemaRegistry_invariant (schema_registry example_logger)"
  by (simp add: example_logger_def SchemaRegistry_invariant_def Schema_invariant_def
        test_schema_def reserved_def)






lemma add_handlers_other_logger:
  "n \<noteq> log (logger out) \<Longrightarrow>
   Logger_handlers (logging (add_handlers out hs)) n = Logger_handlers (logging out) n
   \<and> log (logger (add_handlers out hs)) = log (logger out)"
proof (induction out hs rule: add_handlers.induct)
  case (1 out)
  then show ?case by simp
next
  case (2 out h hs)
  show ?case
  proof (cases "raised out")
    case None
    have l: "log (logger (add_handler (logger out) (logging out) h)) = log (logger out)"
      by (simp add: add_handler_def Let_def split: option.splits)
    from "2.prems" have "n \<noteq> log (logger (add_handler (logger out) (logging out) h))"
      by (simp add: l)
    from "2.IH" [OF None this] "2.prems" None show ?thesis
      by (simp add: l add_handler_logging)
  next
    case (Some e)
    then show ?thesis by simp
  qed
qed

lemma EventLogger_init_other_logger:
  "n \<noteq> ident \<Longrightarrow>
   Logger_handlers (logging (EventLogger_init ident hs policies registry lg)) n
     = Logger_handlers lg n"
  using add_handlers_other_logger [where n = n and out =
      "\<lparr>raised = None,
        logger = \<lparr>handlers = hs,
          allowed_policies = (case policies of None \<Rightarrow> default_allowed_policies | Some ps \<Rightarrow> ps),
          schema_registry = (case registry of
             None \<Rightarrow> default_schema_registry
                      (case policies of None \<Rightarrow> default_allowed_policies | Some ps \<Rightarrow> ps)
           | Some r \<Rightarrow> r),
          log = ident\<rparr>,
        logging = lg\<lparr>Logger_level := (Logger_level lg)(ident := INFO)\<rparr>\<rparr>"]
  by (cases hs) (simp_all add: EventLogger_init_def Let_def)

section \<open>The three outcomes of an emission\<close>

lemma emit_noop:
  "handlers el = None \<or> handlers el = Some []
     \<or> map_of (schemas (schema_registry el)) (schema_name, ver) = None \<Longrightarrow>
   emit el lg schema_name ver event timestamp_override utcnow =
     \<lparr>returned = Inr None, logging_after = lg, event_after = event\<rparr>"
  by (auto simp: emit_def SchemaRegistry_contains_def)

lemma emit_active:
  assumes "handlers el = Some hs" and "hs \<noteq> []"
    and "map_of (schemas (schema_registry el)) (schema_name, ver) = Some schema"
  shows "emit el lg schema_name ver event timestamp_override utcnow =
     (case validate schema event of
        Inl e \<Rightarrow> \<lparr>returned = Inl e, logging_after = lg, event_after = event\<rparr>
      | Inr _ \<Rightarrow>
          \<lparr>returned = Inr (Some (dict_update
               (empty_capsule (case timestamp_override of None \<Rightarrow> utcnow | Some t \<Rightarrow> t)
                  schema_name ver)
               (enforce_redaction_policies schema event (allowed_policies el)))),
           logging_after = Logger_info lg (log el) (dict_update
               (empty_capsule (case timestamp_override of None \<Rightarrow> utcnow | Some t \<Rightarrow> t)
                  schema_name ver)
               (enforce_redaction_policies schema event (allowed_policies el))),
           event_after = enforce_redaction_policies schema event (allowed_policies el)\<rparr>)"
  using assms
  by (simp add: emit_def SchemaRegistry_contains_def SchemaRegistry_get_def Let_def
           split: sum.splits)

lemma emit_success:
  assumes "returned (emit el lg schema_name ver event timestamp_override utcnow) = Inr (Some capsule)"
  shows "\<exists>hs schema. handlers el = Some hs \<and> hs \<noteq> []
     \<and> map_of (schemas (schema_registry el)) (schema_name, ver) = Some schema
     \<and> validate schema event = Inr ()
     \<and> capsule = dict_update
          (empty_capsule (case timestamp_override of None \<Rightarrow> utcnow | Some t \<Rightarrow> t)
             schema_name ver)
          (enforce_redaction_policies schema event (allowed_policies el))
     \<and> logging_after (emit el lg schema_name ver event timestamp_override utcnow)
         = Logger_info lg (log el) capsule
     \<and> event_after (emit el lg schema_name ver event timestamp_override utcnow)
         = enforce_redaction_policies schema event (allowed_policies el)"
proof (cases "handlers el = None \<or> handlers el = Some []
     \<or> map_of (schemas (schema_registry el)) (schema_name, ver) = None")
  case True
  then show ?thesis using assms emit_noop [OF True] by simp
next
  case False
  then obtain hs schema where h: "handlers el = Some hs" "hs \<noteq> []"
    "map_of (schemas (schema_registry el)) (schema_name, ver) = Some schema"
    by auto
  show ?thesis
    using assms h unfolding emit_active [OF h]
    by (auto split: sum.splits)
qed

lemma emit_failure:
  assumes "\<forall>capsule. returned (emit el lg schema_name ver event timestamp_override utcnow)
             \<noteq> Inr (Some capsule)"
  shows "logging_after (emit el lg schema_name ver event timestamp_override utcnow) = lg
     \<and> event_after (emit el lg schema_name ver event timestamp_override utcnow) = event"
proof (cases "handlers el = None \<or> handlers el = Some []
     \<or> map_of (schemas (schema_registry el)) (schema_name, ver) = None")
  case True
  then show ?thesis using emit_noop [OF True] by simp
next
  case False
  then obtain hs schema where h: "handlers el = Some hs" "hs \<noteq> []"
    "map_of (schemas (schema_registry el)) (schema_name, ver) = Some schema"
    by auto
  show ?thesis
    using assms unfolding emit_active [OF h]
    by (auto split: sum.splits)
qed


lemma emit_stream_unattached:
  assumes "h \<notin> set (Logger_handlers lg (log el))"
  shows "Handler_stream (logging_after (emit el lg schema_name ver event timestamp_override utcnow)) h
     = Handler_stream lg h"
proof (cases "\<exists>capsule. returned (emit el lg schema_name ver event timestamp_override utcnow)
                 = Inr (Some capsule)")
  case True
  then obtain capsule where c:
    "returned (emit el lg schema_name ver event timestamp_override utcnow) = Inr (Some capsule)"
    by blast
  from emit_success [OF c] have l:
    "logging_after (emit el lg schema_name ver event timestamp_override utcnow)
       = Logger_info lg (log el) capsule"
    by blast
  from assms have "count_list (Logger_handlers lg (log el)) h = 0"
    by (simp add: count_list_0_iff)
  then show ?thesis
    unfolding l by (simp add: Logger_info_stream)
next
  case False
  then show ?thesis using emit_failure by simp
qed

lemma capsule_timestamp:
  assumes c: "returned (emit el lg schema_name ver event timestamp_override utcnow)
                = Inr (Some capsule)"
    and inv: "SchemaRegistry_invariant (schema_registry el)"
  shows "map_of capsule ''__timestamp__''
           = Some (JString (isoformat (case timestamp_override of None \<Rightarrow> utcnow | Some t \<Rightarrow> t)
                            @ ''Z''))"
proof -
  from emit_success [OF c] obtain schema where
    reg: "map_of (schemas (schema_registry el)) (schema_name, ver) = Some schema"
    and ok: "validate schema event = Inr ()"
    and cap: "capsule = dict_update
          (empty_capsule (case timestamp_override of None \<Rightarrow> utcnow | Some t \<Rightarrow> t)
             schema_name ver)
          (enforce_redaction_policies schema event (allowed_policies el))"
    by blast
  from reg have "((schema_name, ver), schema) \<in> set (schemas (schema_registry el))"
    by (rule map_of_SomeD)
  with inv have "Schema_invariant schema"
    by (auto simp: SchemaRegistry_invariant_def list_all_iff)
  from validate_no_reserved [OF ok this]
  have "\<forall>(k, v) \<in> set event. k \<noteq> ''__timestamp__''"
    by (auto simp: reserved_def)
  then have "''__timestamp__'' \<notin> fst ` set (enforce_redaction_policies schema event (allowed_policies el))"
    by (auto simp: enforce_redaction_policies_def)
  from map_of_dict_update_notin [OF this] show ?thesis
    unfolding cap by (simp add: empty_capsule_def)
qed

lemma example_emit:
  "returned (emit example_logger lg ''test/test'' 1 [(''something'', JString ''blah'')] ts now)
     = Inr (Some [(''__timestamp__'',
                   JString (isoformat (case ts of None \<Rightarrow> now | Some t \<Rightarrow> t) @ ''Z'')),
                  (''__schema__'', JString ''test/test''),
                  (''__schema_version__'', JInt 1),
                  (''__metadata_version__'', JInt 1),
                  (''something'', JString ''blah'')])"
  by (simp add: emit_def example_logger_def SchemaRegistry_contains_def SchemaRegistry_get_def
        validate_def test_schema_def required_def reserved_def enforce_redaction_policies_def
        retained_def dict_update_def empty_capsule_def EVENTS_METADATA_VERSION_def Let_def)

lemma emit_stream:
  assumes "returned (emit el lg schema_name ver event timestamp_override utcnow)
             = Inr (Some capsule)"
  shows "Handler_stream (logging_after (emit el lg schema_name ver event timestamp_override utcnow)) h
     = Handler_stream lg h @
         (if Logger_passes lg (log el) capsule \<and> Handler_takes lg h capsule
          then replicate (count_list (Logger_handlers lg (log el)) h)
                 (formatted (Handler_formatter lg h) capsule)
          else [])"
proof -
  from emit_success [OF assms] have l:
    "logging_after (emit el lg schema_name ver event timestamp_override utcnow)
       = Logger_info lg (log el) capsule"
    by blast
  show ?thesis unfolding l by (rule Logger_info_stream)
qed

lemma test_schema_emit:
  assumes "handlers el = Some hs" and "hs \<noteq> []"
    and "map_of (schemas (schema_registry el)) (''test/test'', 1) = Some test_schema"
    and "allowed_policies el = [''all'']"
  shows "returned (emit el lg ''test/test'' 1 [(''something'', JString ''blah'')] None example_time)
     = Inr (Some [(''__timestamp__'', JString ''2022-08-11T12:34:56Z''),
                  (''__schema__'', JString ''test/test''),
                  (''__schema_version__'', JInt 1),
                  (''__metadata_version__'', JInt 1),
                  (''something'', JString ''blah'')])"
  unfolding emit_active [OF assms(1,2,3)]
  by (simp add: assms(4) validate_def test_schema_def required_def reserved_def
        enforce_redaction_policies_def retained_def dict_update_def empty_capsule_def
        EVENTS_METADATA_VERSION_def example_iso)






lemma second_instance_state:
  "raised first_instance = None"
  "handlers (logger first_instance) = Some [7]"
  "log (logger first_instance) = 0"
  "raised second_instance = None"
  "handlers (logger second_instance) = Some [8]"
  "log (logger second_instance) = 0"
  "Logger_handlers (logging second_instance) 0 = [7, 8]"
  "Handler_formatter (logging second_instance) 7 = JsonFormatter_skip_message"
  "Handler_stream (logging second_instance) h = []"
  "manager_disable (logging second_instance) = 0"
  "Logger_level (logging second_instance) 0 = INFO"
  "Logger_disabled (logging second_instance) n = False"
  "Logger_filter (logging second_instance) n msg = True"
  "Handler_level (logging second_instance) h = 0"
  "Handler_filter (logging second_instance) h msg = True"
  "Handler_emit_fails (logging second_instance) h l = False"
  "register_schema (logger second_instance) test_schema
     = Inr (example_logger\<lparr>handlers := Some [8]\<rparr>)"
  by (simp_all add: second_instance_def first_instance_def EventLogger_init_def
        add_handler_def addHandler_def Logging_empty_def Let_def
        register_schema_def SchemaRegistry_register_def default_allowed_policies_def
        default_schema_registry_def SchemaRegistry_contains_def test_schema_def
        example_logger_def reserved_def)

section \<open>The claims\<close>

text \<open>
  Claim C1. A call of \<open>emit\<close> on a logger without attached sinks (the \<open>handlers\<close> trait
  is \<open>None\<close> or empty), or for a pair of schema name and version that the registry does
  not hold, returns \<open>None\<close> at once: no handler's stream changes, nothing is raised, also
  for an event that the schema would reject, and the event is left as it was.
\<close>

theorem emit_without_sink_or_schema_is_noop:
  assumes "handlers el = None \<or> handlers el = Some []
             \<or> \<not> SchemaRegistry_contains (schema_registry el) (schema_name, ver)"
  shows "emit el lg schema_name ver event timestamp_override utcnow
           = \<lparr>returned = Inr None, logging_after = lg, event_after = event\<rparr>"
  using assms emit_noop [of el schema_name ver lg event timestamp_override utcnow]
  by (simp add: SchemaRegistry_contains_def)

theorem emit_without_sink_or_schema_is_noop_witness:
  "handlers (example_logger\<lparr>handlers := Some []\<rparr>) = Some []
   \<and> validate test_schema [(''something'', JInt 3)]
       = Inl (EventValidationError (Type_mismatch ''something''))
   \<and> emit (example_logger\<lparr>handlers := Some []\<rparr>) two_loggers ''test/test'' 1
        [(''something'', JInt 3)] None example_time
       = \<lparr>returned = Inr None, logging_after = two_loggers,
          event_after = [(''something'', JInt 3)]\<rparr>"
  using emit_without_sink_or_schema_is_noop [of "example_logger\<lparr>handlers := Some []\<rparr>"
          "''test/test''" 1 two_loggers "[(''something'', JInt 3)]" None example_time]
  by (simp add: validate_def test_schema_def required_def)

text \<open>
  Claim C2. When the logger has a sink, the schema is registered and \<open>validate\<close> raises,
  \<open>emit\<close> raises that same error, which is an \<open>EventValidationError\<close>; no handler's
  stream changes, no capsule is returned and the event is left as it was.
\<close>

theorem emit_validation_error_aborts:
  assumes "handlers el = Some hs" and "hs \<noteq> []"
    and "SchemaRegistry_get (schema_registry el) (schema_name, ver) = Inr schema"
    and "validate schema event = Inl e"
  shows "emit el lg schema_name ver event timestamp_override utcnow
           = \<lparr>returned = Inl e, logging_after = lg, event_after = event\<rparr>
         \<and> (\<exists>failure. e = EventValidationError failure)"
proof -
  from assms(3) have "map_of (schemas (schema_registry el)) (schema_name, ver) = Some schema"
    by (simp add: SchemaRegistry_get_def split: option.splits)
  from emit_active [OF assms(1,2) this] assms(4) validate_error [OF assms(4)]
  show ?thesis by simp
qed

theorem emit_validation_error_aborts_witness:
  "handlers example_logger = Some [7]
   \<and> SchemaRegistry_get (schema_registry example_logger) (''test/test'', 1) = Inr test_schema
   \<and> validate test_schema [(''something'', JInt 3)]
       = Inl (EventValidationError (Type_mismatch ''something''))
   \<and> emit example_logger two_loggers ''test/test'' 1 [(''something'', JInt 3)] None example_time
       = \<lparr>returned = Inl (EventValidationError (Type_mismatch ''something'')),
          logging_after = two_loggers, event_after = [(''something'', JInt 3)]\<rparr>"
proof -
  have a: "handlers example_logger = Some [7]" by (simp add: example_logger_def)
  have b: "[7] \<noteq> ([]::handler list)" by simp
  have c: "SchemaRegistry_get (schema_registry example_logger) (''test/test'', 1) = Inr test_schema"
    by (simp add: example_logger_def SchemaRegistry_get_def)
  have d: "validate test_schema [(''something'', JInt 3)]
             = Inl (EventValidationError (Type_mismatch ''something''))"
    by (simp add: validate_def test_schema_def required_def)
  from emit_validation_error_aborts [OF a b c d] a c d show ?thesis by simp
qed

text \<open>
  Claim C3. With the test schema registered under \<open>("test/test", 1)\<close>, at least one sink
  and the default allowed policies, \<open>emit("test/test", 1, {"something": "blah"})\<close> returns
  the capsule with exactly the fields \<open>__timestamp__\<close>, \<open>__schema__ = "test/test"\<close>,
  \<open>__schema_version__ = 1\<close>, \<open>__metadata_version__ = 1\<close> and \<open>something = "blah"\<close>.
\<close>

theorem emit_test_schema_capsule:
  assumes "handlers el = Some hs" and "hs \<noteq> []"
    and "SchemaRegistry_get (schema_registry el) (''test/test'', 1) = Inr test_schema"
    and "allowed_policies el = default_allowed_policies"
  shows "returned (emit el lg ''test/test'' 1 [(''something'', JString ''blah'')] ts now)
     = Inr (Some [(''__timestamp__'',
                   JString (isoformat (case ts of None \<Rightarrow> now | Some t \<Rightarrow> t) @ ''Z'')),
                  (''__schema__'', JString ''test/test''),
                  (''__schema_version__'', JInt 1),
                  (''__metadata_version__'', JInt 1),
                  (''something'', JString ''blah'')])"
proof -
  from assms(3) have reg:
    "map_of (schemas (schema_registry el)) (''test/test'', 1) = Some test_schema"
    by (simp add: SchemaRegistry_get_def split: option.splits)
  have ok: "validate test_schema [(''something'', JString ''blah'')] = Inr ()"
    by (simp add: validate_def test_schema_def required_def reserved_def)
  have red: "enforce_redaction_policies test_schema [(''something'', JString ''blah'')]
               (allowed_policies el)
             = [(''something'', JString ''blah'')]"
    using assms(4)
    by (simp add: enforce_redaction_policies_def retained_def default_allowed_policies_def)
  show ?thesis
    unfolding emit_active [OF assms(1,2) reg]
    by (simp add: ok red dict_update_def empty_capsule_def EVENTS_METADATA_VERSION_def)
qed

theorem emit_test_schema_capsule_witness:
  "register_schema (logger (EventLogger_init 0 (Some [7]) None None Logging_empty)) test_schema
     = Inr example_logger
   \<and> handlers example_logger = Some [7]
   \<and> SchemaRegistry_get (schema_registry example_logger) (''test/test'', 1) = Inr test_schema
   \<and> allowed_policies example_logger = default_allowed_policies
   \<and> returned (emit example_logger two_loggers ''test/test'' 1
                 [(''something'', JString ''blah'')] None example_time)
     = Inr (Some [(''__timestamp__'', JString ''2022-08-11T12:34:56Z''),
                  (''__schema__'', JString ''test/test''),
                  (''__schema_version__'', JInt 1),
                  (''__metadata_version__'', JInt 1),
                  (''something'', JString ''blah'')])"
proof -
  have a: "handlers example_logger = Some [7]" by (simp add: example_logger_def)
  have b: "[7] \<noteq> ([]::handler list)" by simp
  have c: "SchemaRegistry_get (schema_registry example_logger) (''test/test'', 1) = Inr test_schema"
    by (simp add: example_logger_def SchemaRegistry_get_def)
  have d: "allowed_policies example_logger = default_allowed_policies"
    by (simp add: example_logger_def default_allowed_policies_def)
  from emit_test_schema_capsule [OF a b c d, of two_loggers None example_time]
    a c d example_logger_built example_iso
  show ?thesis by simp
qed

text \<open>
  Claim C4. In the capsule of a successful emission, \<open>__timestamp__\<close> is the ISO format of
  the timestamp override followed by \<open>Z\<close> when an override is given, and the ISO format of
  the current UTC time followed by \<open>Z\<close> when none is given. The registry satisfies the
  invariant of section 3, which keeps an event from carrying a field of that name.
\<close>

theorem emit_timestamp_override:
  assumes "returned (emit el lg schema_name ver event timestamp_override utcnow)
             = Inr (Some capsule)"
    and "SchemaRegistry_invariant (schema_registry el)"
  shows "(\<forall>t. timestamp_override = Some t \<longrightarrow>
            map_of capsule ''__timestamp__'' = Some (JString (isoformat t @ ''Z'')))
       \<and> (timestamp_override = None \<longrightarrow>
            map_of capsule ''__timestamp__'' = Some (JString (isoformat utcnow @ ''Z'')))"
  using capsule_timestamp [OF assms] by simp

theorem emit_timestamp_override_witness:
  "returned (emit example_logger two_loggers ''test/test'' 1 [(''something'', JString ''blah'')]
               (Some yesterday) example_time)
     = Inr (Some [(''__timestamp__'', JString ''2022-08-10T12:34:56.000250Z''),
                  (''__schema__'', JString ''test/test''),
                  (''__schema_version__'', JInt 1),
                  (''__metadata_version__'', JInt 1),
                  (''something'', JString ''blah'')])
   \<and> returned (emit example_logger two_loggers ''test/test'' 1 [(''something'', JString ''blah'')]
               None example_time)
     = Inr (Some [(''__timestamp__'', JString ''2022-08-11T12:34:56Z''),
                  (''__schema__'', JString ''test/test''),
                  (''__schema_version__'', JInt 1),
                  (''__metadata_version__'', JInt 1),
                  (''something'', JString ''blah'')])
   \<and> SchemaRegistry_invariant (schema_registry example_logger)
   \<and> isoformat yesterday @ ''Z'' = ''2022-08-10T12:34:56.000250Z''
   \<and> isoformat example_time @ ''Z'' = ''2022-08-11T12:34:56Z''"
proof -
  have iso: "isoformat yesterday = ''2022-08-10T12:34:56.000250''"
    by (simp add: isoformat_def yesterday_def example_time_def d2_def d4_def d6_def digit_def
          format_time_def)
  have r: "returned (emit example_logger two_loggers ''test/test'' 1
                      [(''something'', JString ''blah'')] (Some yesterday) example_time)
     = Inr (Some [(''__timestamp__'', JString ''2022-08-10T12:34:56.000250Z''),
                  (''__schema__'', JString ''test/test''),
                  (''__schema_version__'', JInt 1),
                  (''__metadata_version__'', JInt 1),
                  (''something'', JString ''blah'')])"
    by (simp add: example_emit iso)
  have r': "returned (emit example_logger two_loggers ''test/test'' 1
                      [(''something'', JString ''blah'')] None example_time)
     = Inr (Some [(''__timestamp__'', JString ''2022-08-11T12:34:56Z''),
                  (''__schema__'', JString ''test/test''),
                  (''__schema_version__'', JInt 1),
                  (''__metadata_version__'', JInt 1),
                  (''something'', JString ''blah'')])"
    by (simp add: example_emit example_iso)
  from emit_timestamp_override [OF r example_logger_invariant]
  have t: "isoformat yesterday @ ''Z'' = ''2022-08-10T12:34:56.000250Z''" by simp
  from emit_timestamp_override [OF r' example_logger_invariant]
  have t': "isoformat example_time @ ''Z'' = ''2022-08-11T12:34:56Z''" by simp
  from r r' example_logger_invariant t t' show ?thesis by simp
qed









text \<open>
  Claim C8 does not hold of the code. The name of an instance's logger is made of
  \<open>id(self)\<close>, which a later instance can have again once the first is gone, and
  \<open>logging.getLogger\<close> then returns the first instance's logger with its handlers: the
  second instance, constructed with the sink 8 alone, writes its capsule to the sink 7,
  which was given to the first instance only. The comment in \<open>__init__\<close> says the name is
  unique so that instances do not write to each other's handlers. Under different names
  the instances are apart: \<open>emit_stream_unattached\<close>, \<open>EventLogger_init_other_logger\<close>.
\<close>

theorem logger_name_reuse_reaches_foreign_sink:
  "handlers (logger first_instance) = Some [7]
   \<and> handlers (logger second_instance) = Some [8]
   \<and> log (logger second_instance) = log (logger first_instance)
   \<and> Logger_handlers (logging second_instance) (log (logger second_instance)) = [7, 8]
   \<and> register_schema (logger second_instance) test_schema
       = Inr (example_logger\<lparr>handlers := Some [8]\<rparr>)
   \<and> Handler_stream (logging second_instance) 7 = []
   \<and> Handler_stream (logging_after
        (emit (example_logger\<lparr>handlers := Some [8]\<rparr>) (logging second_instance)
           ''test/test'' 1 [(''something'', JString ''blah'')] None example_time)) 7
       = [JsonLine [(''__timestamp__'', JString ''2022-08-11T12:34:56Z''),
                    (''__schema__'', JString ''test/test''),
                    (''__schema_version__'', JInt 1),
                    (''__metadata_version__'', JInt 1),
                    (''something'', JString ''blah'')]]"
proof -
  have r: "returned (emit (example_logger\<lparr>handlers := Some [8]\<rparr>) (logging second_instance)
             ''test/test'' 1 [(''something'', JString ''blah'')] None example_time)
       = Inr (Some [(''__timestamp__'', JString ''2022-08-11T12:34:56Z''),
                    (''__schema__'', JString ''test/test''),
                    (''__schema_version__'', JInt 1),
                    (''__metadata_version__'', JInt 1),
                    (''something'', JString ''blah'')])"
    by (rule test_schema_emit [where hs = "[8]"]) (simp_all add: example_logger_def)
  have s: "Handler_stream (logging_after
        (emit (example_logger\<lparr>handlers := Some [8]\<rparr>) (logging second_instance)
           ''test/test'' 1 [(''something'', JString ''blah'')] None example_time)) 7
       = [JsonLine [(''__timestamp__'', JString ''2022-08-11T12:34:56Z''),
                    (''__schema__'', JString ''test/test''),
                    (''__schema_version__'', JInt 1),
                    (''__metadata_version__'', JInt 1),
                    (''something'', JString ''blah'')]]"
    unfolding emit_stream [OF r]
    by (simp add: second_instance_state example_logger_def isEnabledFor_def INFO_def
          dict_update_def)
  from s show ?thesis by (simp add: second_instance_state)
qed

text \<open>
  Claim C9. With a timestamp override, \<open>__timestamp__\<close> is the override's ISO format
  followed by \<open>Z\<close>, with no conversion: for an override with an offset from UTC it is the
  override's own wall clock fields, then that offset, then \<open>Z\<close>, and it differs from the
  rendering of every naive UTC time, so it is not the UTC instant as an emission without
  override would write it.
\<close>

theorem emit_timestamp_keeps_offset:
  assumes "returned (emit el lg schema_name ver event (Some t) utcnow) = Inr (Some capsule)"
    and "SchemaRegistry_invariant (schema_registry el)"
  shows "map_of capsule ''__timestamp__'' = Some (JString (isoformat t @ ''Z''))
    \<and> (\<forall>off. utcoffset t = Some off \<longrightarrow>
          isoformat t @ ''Z'' = isoformat (t\<lparr>utcoffset := None\<rparr>) @ format_offset off @ ''Z''
          \<and> (\<forall>u. utcoffset u = None \<longrightarrow> isoformat t @ ''Z'' \<noteq> isoformat u @ ''Z''))"
proof (intro conjI allI impI)
  from capsule_timestamp [OF assms]
  show "map_of capsule ''__timestamp__'' = Some (JString (isoformat t @ ''Z''))" by simp
next
  fix off assume "utcoffset t = Some off"
  then show "isoformat t @ ''Z'' = isoformat (t\<lparr>utcoffset := None\<rparr>) @ format_offset off @ ''Z''"
    by (subst isoformat_split) simp
next
  fix off and u :: datetime
  assume "utcoffset t = Some off" and "utcoffset u = None"
  then show "isoformat t @ ''Z'' \<noteq> isoformat u @ ''Z''" by (rule isoformat_aware_not_naive)
qed

theorem emit_timestamp_keeps_offset_witness:
  "returned (emit example_logger two_loggers ''test/test'' 1 [(''something'', JString ''blah'')]
               (Some berlin_noon) example_time)
     = Inr (Some [(''__timestamp__'', JString ''2022-08-11T12:34:56+02:00Z''),
                  (''__schema__'', JString ''test/test''),
                  (''__schema_version__'', JInt 1),
                  (''__metadata_version__'', JInt 1),
                  (''something'', JString ''blah'')])
   \<and> SchemaRegistry_invariant (schema_registry example_logger)
   \<and> utcoffset berlin_noon = Some 7200000000
   \<and> utcoffset (example_time\<lparr>hour := 10\<rparr>) = None
   \<and> isoformat berlin_noon @ ''Z'' = ''2022-08-11T12:34:56+02:00Z''
   \<and> isoformat (example_time\<lparr>hour := 10\<rparr>) @ ''Z'' = ''2022-08-11T10:34:56Z''
   \<and> isoformat berlin_noon @ ''Z'' \<noteq> isoformat (example_time\<lparr>hour := 10\<rparr>) @ ''Z''"
proof -
  have iso: "isoformat berlin_noon = ''2022-08-11T12:34:56+02:00''"
    by (simp add: isoformat_def berlin_noon_def example_time_def d2_def d4_def digit_def
          format_time_def format_offset_def Let_def)
  have iso10: "isoformat (example_time\<lparr>hour := 10\<rparr>) = ''2022-08-11T10:34:56''"
    by (simp add: isoformat_def example_time_def d2_def d4_def digit_def format_time_def)
  have r: "returned (emit example_logger two_loggers ''test/test'' 1
                      [(''something'', JString ''blah'')] (Some berlin_noon) example_time)
     = Inr (Some [(''__timestamp__'', JString ''2022-08-11T12:34:56+02:00Z''),
                  (''__schema__'', JString ''test/test''),
                  (''__schema_version__'', JInt 1),
                  (''__metadata_version__'', JInt 1),
                  (''something'', JString ''blah'')])"
    by (simp add: example_emit iso)
  have off: "utcoffset berlin_noon = Some 7200000000" by (simp add: berlin_noon_def)
  have naive: "utcoffset (example_time\<lparr>hour := 10\<rparr>) = None" by (simp add: example_time_def)
  from emit_timestamp_keeps_offset [OF r example_logger_invariant] off naive
  have "isoformat berlin_noon @ ''Z'' \<noteq> isoformat (example_time\<lparr>hour := 10\<rparr>) @ ''Z''"
    by blast
  with r example_logger_invariant off naive iso iso10 show ?thesis by simp
qed

text \<open>
  Claim C10, as amended. On a logger whose \<open>handlers\<close> trait is a list, the second of two
  calls \<open>add_handler(h)\<close> raises nothing and leaves the list as the first call made it;
  \<open>h\<close> then occurs in it once when it occurred at most once before, and as often as
  before otherwise. \<open>remove_handler(h)\<close> for an \<open>h\<close> that is not on the list leaves the
  list unchanged.
\<close>

theorem add_handler_twice_remove_absent:
  assumes "handlers el = Some hs"
  shows "raised (add_handler (logger (add_handler el lg h)) (logging (add_handler el lg h)) h) = None
    \<and> handlers (logger (add_handler (logger (add_handler el lg h))
                                    (logging (add_handler el lg h)) h))
        = handlers (logger (add_handler el lg h))
    \<and> (\<exists>hs'. handlers (logger (add_handler (logger (add_handler el lg h))
                                            (logging (add_handler el lg h)) h)) = Some hs'
             \<and> count_list hs' h = max 1 (count_list hs h))
    \<and> (h \<notin> set hs \<longrightarrow> raised (remove_handler el lg h) = None
                        \<and> handlers (logger (remove_handler el lg h)) = Some hs)"
proof -
  let ?hs1 = "if h \<notin> set hs then hs @ [h] else hs"
  from add_handler_logger [OF assms, of lg h]
  have one: "logger (add_handler el lg h) = el\<lparr>handlers := Some ?hs1\<rparr>" by simp
  then have h1: "handlers (logger (add_handler el lg h)) = Some ?hs1" by simp
  have mem: "h \<in> set ?hs1" by simp
  from add_handler_logger [OF h1, of "logging (add_handler el lg h)" h] mem
  have two: "raised (add_handler (logger (add_handler el lg h)) (logging (add_handler el lg h)) h)
               = None"
    "handlers (logger (add_handler (logger (add_handler el lg h))
                                   (logging (add_handler el lg h)) h)) = Some ?hs1"
    by simp_all
  have cnt: "count_list ?hs1 h = max 1 (count_list hs h)"
  proof (cases "h \<in> set hs")
    case True
    then have "count_list hs h \<noteq> 0" by (simp add: count_list_0_iff)
    with True show ?thesis by simp
  next
    case False
    then have "count_list hs h = 0" by (simp add: count_list_0_iff)
    with False show ?thesis by simp
  qed
  from two h1 cnt remove_handler_logger [OF assms, of lg h] show ?thesis by simp
qed

theorem add_handler_twice_remove_absent_witness:
  "handlers example_logger = Some [7]
   \<and> handlers (logger (add_handler (logger (add_handler example_logger Logging_empty 8))
                                   (logging (add_handler example_logger Logging_empty 8)) 8))
       = Some [7, 8]
   \<and> count_list [7, 8] (8::nat) = max 1 (count_list [7] 8)
   \<and> (8::nat) \<notin> set [7]
   \<and> handlers (logger (remove_handler example_logger Logging_empty 8)) = Some [7]"
  using add_handler_twice_remove_absent [of example_logger "[7]" Logging_empty 8]
  by (simp add: example_logger_def add_handler_def remove_handler_def Let_def)

text \<open>
  The claim as stated, exactly one occurrence after two calls, fails for a logger that was
  constructed with the same handler twice on its list: \<open>add_handler\<close> keeps both.
\<close>

theorem add_handler_twice_counterexample:
  "raised duplicate_logger = None
   \<and> handlers (logger (add_handler (logger (add_handler (logger duplicate_logger)
                                                       (logging duplicate_logger) 7))
                                   (logging (add_handler (logger duplicate_logger)
                                                         (logging duplicate_logger) 7)) 7))
       = Some [7, 7]
   \<and> count_list [7, 7] (7::nat) = 2"
  by (simp add: duplicate_logger_def EventLogger_init_def add_handler_def Let_def)

end
